theory Spec2Isabelle
  imports
    Main
    "HOL-Library.AList"
    "HOL-Library.Char_ord"
    "HOL-Library.List_Lexorder"
    "HOL-Library.Word"
begin

section \<open>JSON documents\<close>

text \<open>
  The metadata documents of the passport services are Python values built from
  \<^verbatim>\<open>None\<close>, booleans, integers, strings, lists and dictionaries with string keys.
  A dictionary is kept as the list of its items in insertion order; Python never holds
  two items under one key, which is the predicate \<open>wf_json\<close>. Floating point numbers
  are left out: their textual form is not part of this development.
\<close>

datatype json =
    JNull
  | JBool bool
  | JInt int
  | JStr string
  | JList "json list"
  | JObj "(string \<times> json) list"

type_synonym dict = "(string \<times> json) list"

fun wf_json :: "json \<Rightarrow> bool" where
  "wf_json (JList xs) = list_all wf_json xs"
| "wf_json (JObj kvs) = (distinct (map fst kvs) \<and> list_all (\<lambda>(k, v). wf_json v) kvs)"
| "wf_json _ = True"

text \<open>\<^verbatim>\<open>d[k] = v\<close>: an existing key keeps its place, a new key goes last.\<close>

definition dict_setitem :: "string \<Rightarrow> json \<Rightarrow> dict \<Rightarrow> dict" where
  "dict_setitem k v d = AList.update k v d"

text \<open>\<^verbatim>\<open>d.pop(k, None)\<close>, keeping only the dictionary that is left.\<close>

definition dict_pop :: "string \<Rightarrow> dict \<Rightarrow> dict" where
  "dict_pop k d = AList.delete k d"

text \<open>\<^verbatim>\<open>{**a, **b}\<close>: the items of \<open>b\<close> are stored into \<open>a\<close> from left to right.\<close>

definition dict_merge :: "dict \<Rightarrow> dict \<Rightarrow> dict" where
  "dict_merge a b = fold (\<lambda>(k, v). dict_setitem k v) b a"

text \<open>Truth value of a Python object, as \<^verbatim>\<open>x or y\<close> and \<^verbatim>\<open>if x:\<close> test it.\<close>

fun py_truthy :: "json \<Rightarrow> bool" where
  "py_truthy JNull = False"
| "py_truthy (JBool b) = b"
| "py_truthy (JInt i) = (i \<noteq> 0)"
| "py_truthy (JStr s) = (s \<noteq> [])"
| "py_truthy (JList xs) = (xs \<noteq> [])"
| "py_truthy (JObj kvs) = (kvs \<noteq> [])"

text \<open>
  Python's \<^verbatim>\<open>==\<close> on these values. Lists compare item by item; dictionaries compare
  as maps (the same number of items, and every key of the left one is bound on the
  right to an equal value); \<^verbatim>\<open>bool\<close> is a subtype of \<^verbatim>\<open>int\<close>, so \<^verbatim>\<open>True == 1\<close>
  and \<^verbatim>\<open>False == 0\<close> hold.
\<close>

fun py_eq :: "json \<Rightarrow> json \<Rightarrow> bool" where
  "py_eq (JList xs) (JList ys) = list_all2 py_eq xs ys"
| "py_eq (JObj xs) (JObj ys) =
     (length xs = length ys \<and>
      list_all (\<lambda>(k, v). case map_of ys k of None \<Rightarrow> False | Some w \<Rightarrow> py_eq v w) xs)"
| "py_eq (JBool a) (JInt j) = ((if a then 1 else 0) = j)"
| "py_eq (JInt i) (JBool b) = (i = (if b then 1 else 0))"
| "py_eq a b = (a = b)"

section \<open>Serialisation: \<^verbatim>\<open>json.dumps(data, sort_keys=True, separators=(',', ':'))\<close>\<close>

definition hex_digit :: "nat \<Rightarrow> char" where
  "hex_digit n = ''0123456789abcdef'' ! (n mod 16)"

text \<open>
  The encoder's \<^verbatim>\<open>ensure_ascii\<close> escaping of one character. A character is a code
  point below 256; everything outside the printable ASCII range is written
  \<^verbatim>\<open>\u00XX\<close>.
\<close>

fun escape_char :: "char \<Rightarrow> string" where
  "escape_char c =
     (if c = CHR 0x22 then [CHR 0x5C, CHR 0x22]
      else if c = CHR 0x5C then [CHR 0x5C, CHR 0x5C]
      else if c = CHR 0x0A then [CHR 0x5C, CHR ''n'']
      else if c = CHR 0x0D then [CHR 0x5C, CHR ''r'']
      else if c = CHR 0x09 then [CHR 0x5C, CHR ''t'']
      else if c = CHR 0x08 then [CHR 0x5C, CHR ''b'']
      else if c = CHR 0x0C then [CHR 0x5C, CHR ''f'']
      else if 0x20 \<le> (of_char c :: nat) \<and> (of_char c :: nat) \<le> 0x7E then [c]
      else [CHR 0x5C, CHR ''u'', CHR ''0'', CHR ''0'',
            hex_digit (of_char c div 16), hex_digit (of_char c mod 16)])"

definition encode_basestring_ascii :: "string \<Rightarrow> string" where
  "encode_basestring_ascii s = [CHR 0x22] @ concat (map escape_char s) @ [CHR 0x22]"

text \<open>\<^verbatim>\<open>str\<close> of an integer: its decimal digits (the first ten characters of the digit table).\<close>

function str_nat :: "nat \<Rightarrow> string" where
  "str_nat n = (if n < 10 then [hex_digit n] else str_nat (n div 10) @ [hex_digit (n mod 10)])"
  by pat_completeness auto
termination
  by (relation "measure id") auto

declare str_nat.simps [simp del]

definition str_int :: "int \<Rightarrow> string" where
  "str_int i = (if i < 0 then CHR ''-'' # str_nat (nat (- i)) else str_nat (nat i))"

fun join :: "string \<Rightarrow> string list \<Rightarrow> string" where
  "join sep [] = []"
| "join sep [x] = x"
| "join sep (x # y # ys) = x @ sep @ join sep (y # ys)"

text \<open>
  With \<^verbatim>\<open>sort_keys=True\<close> the encoder sorts the items of every dictionary by key
  before it writes them; strings compare by code point, which is the lexicographic
  order of \<open>char list\<close>.
\<close>

fun json_dumps :: "json \<Rightarrow> string" where
  "json_dumps JNull = ''null''"
| "json_dumps (JBool b) = (if b then ''true'' else ''false'')"
| "json_dumps (JInt i) = str_int i"
| "json_dumps (JStr s) = encode_basestring_ascii s"
| "json_dumps (JList xs) = ''['' @ join '','' (map json_dumps xs) @ '']''"
| "json_dumps (JObj kvs) =
     ''{'' @ join '',''
        (map (\<lambda>(k, v). encode_basestring_ascii k @ '':'' @ json_dumps v) (sort_key fst kvs))
      @ ''}''"

section \<open>The data hash (\<^verbatim>\<open>BlockchainService.generate_data_hash\<close>)\<close>

text \<open>
  \<^verbatim>\<open>Web3.keccak\<close> and the \<^verbatim>\<open>HexBytes\<close> value it returns belong to the web3 and hexbytes
  libraries, not to the repository. The digest function is a parameter \<open>keccak\<close> from
  the serialised text to a 256-bit word. \<open>hex_digits\<close> is \<^verbatim>\<open>bytes.hex()\<close> of the 32
  bytes: 64 hexadecimal digits, most significant first. \<open>hex_of_digest\<close> is
  \<^verbatim>\<open>HexBytes.hex()\<close> as the libraries behind the source render it: the source calls
  \<^verbatim>\<open>signed_txn.rawTransaction\<close> and \<^verbatim>\<open>w3.is_connected()\<close>, the names of web3 6, whose
  hexbytes (below 1.0) writes the prefix \<^verbatim>\<open>0x\<close> before the digits.
\<close>

definition hex_digits :: "256 word \<Rightarrow> string" where
  "hex_digits w = map (\<lambda>i. hex_digit (unat (drop_bit (4 * i) w))) (rev [0..<64])"

definition hex_of_digest :: "256 word \<Rightarrow> string" where
  "hex_of_digest w = ''0x'' @ hex_digits w"

definition generate_data_hash :: "(string \<Rightarrow> 256 word) \<Rightarrow> dict \<Rightarrow> string" where
  "generate_data_hash keccak data = hex_of_digest (keccak (json_dumps (JObj data)))"


section \<open>The external systems and the state of the application\<close>

text \<open>
  A product row (\<^verbatim>\<open>models/product.py\<close>). The primary key \<^verbatim>\<open>id\<close> is named
  \<open>prod_id\<close>; a date is held as its ISO text; a NULL JSON column is \<open>JNull\<close>.
\<close>

record product =
  prod_id :: string
  supplier_id :: string
  product_name :: string
  description :: "string option"
  material_composition :: json
  production_location :: "string option"
  production_date :: "string option"
  gtin :: "string option"

text \<open>
  A passport row (\<^verbatim>\<open>models/dpp.py\<close>, class \<^verbatim>\<open>DigitalProductPassport\<close>). The primary key
  \<^verbatim>\<open>id\<close> is named \<open>id'\<close>. The row has no column for the data hash.
\<close>

record passport =
  id' :: string
  product_id :: string
  dpp_url :: string
  ipfs_cid :: string
  blockchain_hash :: string
  gs1_digital_link :: string
  epcis_events :: "json list"
  json_ld_data :: dict
  issued_at :: string
  updated_at :: string

text \<open>
  The \<^verbatim>\<open>transaction_info\<close> dictionary of a registration: the full receipt, or the
  one-key dictionary that \<^verbatim>\<open>create_complete_dpp\<close> builds when registration failed.
\<close>

datatype transaction_info =
    Receipt (transaction_hash: string) (block_number: nat) (gas_used: nat)
      (ledger_dpp_id: "nat option") (status: nat)
  | Fallback (transaction_hash: string)

record cid_verification =
  is_valid :: bool
  chain_dpp_id :: nat
  data_hash :: string

text \<open>
  Everything the services read from outside: the product table, the clock and the
  identifier generator, the IPFS node behind \<^verbatim>\<open>ipfshttpclient\<close>, and the contract
  behind \<^verbatim>\<open>web3\<close>. A remote call returns \<open>Inl\<close> with the text of the exception it
  raised, or \<open>Inr\<close> with its result.
\<close>

record env =
  products :: "string \<Rightarrow> product option"
  utcnow :: string
  uuid4 :: string
  ipfs_client :: bool
  ipfs_add_json :: "dict \<Rightarrow> string + string"
  ipfs_get_json :: "string \<Rightarrow> string + json"
  ipfs_pin_add :: "string \<Rightarrow> string + unit"
  ipfs_pin_rm :: "string \<Rightarrow> string + unit"
  keccak :: "string \<Rightarrow> 256 word"
  contract_address :: "string option"
  contract :: bool
  account :: bool
  is_connected :: bool
  send_registerDPP :: "string \<Rightarrow> string \<Rightarrow> string \<Rightarrow> string \<Rightarrow> string + transaction_info"
  call_verifyByCid :: "string \<Rightarrow> string + (bool \<times> nat \<times> 256 word)"

text \<open>
  What the services change: the passport table, and a journal of the effects on the
  two remote systems (documents handed to \<^verbatim>\<open>add_json\<close>, pins added and removed,
  calls of \<^verbatim>\<open>register_dpp_on_blockchain\<close> with their four arguments).
\<close>

record world =
  passports :: "passport list"
  ipfs_added :: "(string \<times> dict) list"
  ipfs_pinned :: "string list"
  ipfs_unpinned :: "string list"
  ledger_calls :: "(string \<times> string \<times> string \<times> string) list"

section \<open>\<^verbatim>\<open>IPFSService\<close>\<close>

text \<open>The dictionary \<^verbatim>\<open>metadata\<close> that \<^verbatim>\<open>upload_dpp_metadata\<close> builds and uploads.\<close>

definition upload_metadata :: "env \<Rightarrow> dict \<Rightarrow> dict" where
  "upload_metadata e dpp_data =
     dict_setitem ''ipfs_version'' (JStr ''1.0'')
       (dict_setitem ''ipfs_upload_timestamp'' (JStr (utcnow e)) dpp_data)"

definition upload_dpp_metadata :: "env \<Rightarrow> dict \<Rightarrow> world \<Rightarrow> (string + string) \<times> world" where
  "upload_dpp_metadata e dpp_data w =
     (if \<not> ipfs_client e then (Inl ''IPFS client not initialized'', w)
      else
        (case ipfs_add_json e (upload_metadata e dpp_data) of
           Inl ex \<Rightarrow> (Inl (''Error uploading to IPFS: '' @ ex), w)
         | Inr cid \<Rightarrow>
             (Inr cid, w\<lparr>ipfs_added := ipfs_added w @ [(cid, upload_metadata e dpp_data)]\<rparr>)))"

definition retrieve_dpp_metadata :: "env \<Rightarrow> string \<Rightarrow> string + json" where
  "retrieve_dpp_metadata e cid =
     (if \<not> ipfs_client e then Inl ''IPFS client not initialized''
      else
        (case ipfs_get_json e cid of
           Inl ex \<Rightarrow> Inl (''Error retrieving from IPFS: '' @ ex)
         | Inr metadata \<Rightarrow> Inr metadata))"

definition pin_content :: "env \<Rightarrow> string \<Rightarrow> world \<Rightarrow> (string + unit) \<times> world" where
  "pin_content e cid w =
     (if \<not> ipfs_client e then (Inl ''IPFS client not initialized'', w)
      else
        (case ipfs_pin_add e cid of
           Inl ex \<Rightarrow> (Inl (''Error pinning content: '' @ ex), w)
         | Inr u \<Rightarrow> (Inr (), w\<lparr>ipfs_pinned := ipfs_pinned w @ [cid]\<rparr>)))"

definition unpin_content :: "env \<Rightarrow> string \<Rightarrow> world \<Rightarrow> (string + unit) \<times> world" where
  "unpin_content e cid w =
     (if \<not> ipfs_client e then (Inl ''IPFS client not initialized'', w)
      else
        (case ipfs_pin_rm e cid of
           Inl ex \<Rightarrow> (Inl (''Error unpinning content: '' @ ex), w)
         | Inr u \<Rightarrow> (Inr (), w\<lparr>ipfs_unpinned := ipfs_unpinned w @ [cid]\<rparr>)))"

text \<open>The two \<^verbatim>\<open>pop\<close> calls that \<^verbatim>\<open>verify_content_integrity\<close> applies to each copy.\<close>

definition pop_volatile :: "dict \<Rightarrow> dict" where
  "pop_volatile d = dict_pop ''ipfs_version'' (dict_pop ''ipfs_upload_timestamp'' d)"

text \<open>
  \<^verbatim>\<open>verify_content_integrity\<close> returns \<open>Inr is_valid\<close>, or \<open>Inl\<close> with the error text.
  When the retrieved value is not a dictionary, \<^verbatim>\<open>copy\<close> or the two-argument
  \<^verbatim>\<open>pop\<close> raises, and the handler reports the error.
\<close>

definition verify_content_integrity :: "env \<Rightarrow> string \<Rightarrow> dict \<Rightarrow> string + bool" where
  "verify_content_integrity e cid expected_data =
     (case retrieve_dpp_metadata e cid of
        Inl error \<Rightarrow> Inl error
      | Inr retrieved_data \<Rightarrow>
          (case retrieved_data of
             JObj retrieved \<Rightarrow>
               Inr (py_eq (JObj (pop_volatile retrieved)) (JObj (pop_volatile expected_data)))
           | _ \<Rightarrow> Inl ''Error verifying content integrity: not a dictionary''))"

section \<open>\<^verbatim>\<open>BlockchainService\<close>\<close>

definition register_dpp_on_blockchain ::
  "env \<Rightarrow> string \<Rightarrow> string \<Rightarrow> string \<Rightarrow> string \<Rightarrow> world \<Rightarrow> (string + transaction_info) \<times> world"
where
  "register_dpp_on_blockchain e cid dhash pid supplier_info w =
     (let w' = w\<lparr>ledger_calls := ledger_calls w @ [(cid, dhash, pid, supplier_info)]\<rparr> in
      if \<not> contract e \<or> \<not> account e then (Inl ''Contract or account not initialized'', w')
      else if \<not> is_connected e then (Inl ''Not connected to blockchain'', w')
      else
        (case send_registerDPP e cid dhash pid supplier_info of
           Inl ex \<Rightarrow> (Inl (''Error registering DPP on blockchain: '' @ ex), w')
         | Inr transaction_info \<Rightarrow> (Inr transaction_info, w')))"

text \<open>
  The contract call returns the \<^verbatim>\<open>bytes32\<close> value as \<^verbatim>\<open>bytes\<close>, whose \<^verbatim>\<open>hex()\<close> has no
  prefix.
\<close>

definition verify_dpp_by_cid :: "env \<Rightarrow> string \<Rightarrow> string + cid_verification" where
  "verify_dpp_by_cid e cid =
     (if \<not> contract e then Inl ''Contract not initialized''
      else if \<not> is_connected e then Inl ''Not connected to blockchain''
      else
        (case call_verifyByCid e cid of
           Inl ex \<Rightarrow> Inl (''Error verifying DPP by CID: '' @ ex)
         | Inr (valid, n, h) \<Rightarrow>
             Inr \<lparr>is_valid = valid, chain_dpp_id = n, data_hash = hex_digits h\<rparr>))"

section \<open>The passport table\<close>

text \<open>
  \<^verbatim>\<open>db.session.add(dpp); db.session.commit()\<close>. The table declares \<^verbatim>\<open>id\<close> as primary
  key and \<^verbatim>\<open>product_id\<close>, \<^verbatim>\<open>dpp_url\<close>, \<^verbatim>\<open>ipfs_cid\<close> and \<^verbatim>\<open>blockchain_hash\<close> as unique;
  a commit that breaks one of these raises, and the caller rolls back.
\<close>

definition unique_violation :: "passport list \<Rightarrow> passport \<Rightarrow> bool" where
  "unique_violation rows n =
     list_ex (\<lambda>r. id' r = id' n \<or> product_id r = product_id n \<or> dpp_url r = dpp_url n
                 \<or> ipfs_cid r = ipfs_cid n \<or> blockchain_hash r = blockchain_hash n) rows"

definition db_add_commit :: "passport list \<Rightarrow> passport \<Rightarrow> string + passport list" where
  "db_add_commit rows n =
     (if unique_violation rows n then Inl ''IntegrityError'' else Inr (rows @ [n]))"

text \<open>Writing back the row loaded by \<^verbatim>\<open>query.get(dpp_id)\<close>.\<close>

fun db_replace :: "passport \<Rightarrow> passport list \<Rightarrow> passport list" where
  "db_replace n [] = []"
| "db_replace n (r # rs) = (if id' r = id' n then n # rs else r # db_replace n rs)"

definition db_update_commit :: "passport list \<Rightarrow> passport \<Rightarrow> string + passport list" where
  "db_update_commit rows n =
     (if list_ex (\<lambda>r. id' r \<noteq> id' n \<and> ipfs_cid r = ipfs_cid n) rows
      then Inl ''IntegrityError'' else Inr (db_replace n rows))"

section \<open>\<^verbatim>\<open>DPPService\<close>\<close>

text \<open>\<^verbatim>\<open>x or default\<close> on an optional string: \<^verbatim>\<open>None\<close> and the empty string are false.\<close>

definition or_else :: "string option \<Rightarrow> string \<Rightarrow> string" where
  "or_else x alt = (case x of None \<Rightarrow> alt | Some s \<Rightarrow> if s = [] then alt else s)"

definition json_of_optional :: "string option \<Rightarrow> json" where
  "json_of_optional x = (case x of None \<Rightarrow> JNull | Some s \<Rightarrow> JStr s)"

definition generate_json_ld_metadata :: "env \<Rightarrow> product \<Rightarrow> string \<Rightarrow> dict" where
  "generate_json_ld_metadata e p dpp_id =
     [(''@context'', JList
         [JStr ''https://www.w3.org/ns/credentials/v1'',
          JStr ''https://test.uncefact.org/vocabulary/untp/dpp/0.5.0/'',
          JObj [(''dpp'', JStr ''https://test.uncefact.org/vocabulary/untp/dpp/0.5.0/''),
                (''gs1'', JStr ''https://gs1.org/voc/''),
                (''epcis'', JStr ''https://ref.gs1.org/epcis/''),
                (''schema'', JStr ''https://schema.org/'')]]),
      (''@type'', JStr ''DigitalProductPassport''),
      (''@id'', JStr (''https://econetra.com/dpp'' @ ''/'' @ dpp_id)),
      (''dpp:productIdentifier'', JObj
         [(''@type'', JStr ''gs1:GTIN''),
          (''@value'', JStr (or_else (gtin p) (''ECONETRA-'' @ prod_id p)))]),
      (''dpp:productName'', JStr (product_name p)),
      (''dpp:productDescription'', json_of_optional (description p)),
      (''dpp:materialComposition'',
         (if py_truthy (material_composition p) then material_composition p else JObj [])),
      (''dpp:productionLocation'', JObj
         [(''@type'', JStr ''schema:Place''),
          (''schema:name'', JStr (or_else (production_location p) ''Tiruppur, India''))]),
      (''dpp:productionDate'', json_of_optional (production_date p)),
      (''dpp:supplier'', JObj
         [(''@type'', JStr ''schema:Organization''),
          (''@id'', JStr (''urn:supplier:'' @ supplier_id p)),
          (''schema:name'', JStr ''Textile Supplier''),
          (''schema:location'', JStr ''Tiruppur, India'')]),
      (''dpp:sustainability'', JObj
         [(''dpp:carbonFootprint'', JObj
             [(''@type'', JStr ''schema:QuantitativeValue''),
              (''schema:value'', JStr ''TBD''),
              (''schema:unitCode'', JStr ''KGM'')]),
          (''dpp:recyclability'', JStr ''TBD''),
          (''dpp:certifications'', JList []),
          (''dpp:waterUsage'', JObj
             [(''@type'', JStr ''schema:QuantitativeValue''),
              (''schema:value'', JStr ''TBD''),
              (''schema:unitCode'', JStr ''LTR'')])]),
      (''dpp:traceability'', JObj
         [(''dpp:supplyChainEvents'', JList []),
          (''epcis:events'', JList [])]),
      (''dpp:compliance'', JObj
         [(''dpp:euRegulations'', JList [JStr ''ESPR'', JStr ''DPP Delegated Act'']),
          (''dpp:standards'', JList [JStr ''JSON-LD'', JStr ''GS1 Digital Link'', JStr ''EPCIS 2.0'']),
          (''dpp:certificationBodies'', JList [])]),
      (''dpp:digitalSignature'', JObj
         [(''@type'', JStr ''dpp:CryptographicSignature''),
          (''dpp:signatureMethod'', JStr ''blockchain''),
          (''dpp:blockchain'', JStr ''Polygon''),
          (''dpp:contractAddress'', json_of_optional (contract_address e))]),
      (''dpp:issuedAt'', JStr (utcnow e)),
      (''dpp:version'', JStr ''1.0''),
      (''dpp:issuer'', JObj
         [(''@type'', JStr ''schema:Organization''),
          (''schema:name'', JStr ''Econetra DPP Platform''),
          (''schema:url'', JStr ''https://econetra.com'')])]"

text \<open>
  \<^verbatim>\<open>json_ld_data["dpp:traceability"]["epcis:events"] = epcis_events\<close>. The outer key is
  always bound to a dictionary in the document built above.
\<close>

definition set_epcis_events :: "json list \<Rightarrow> dict \<Rightarrow> dict" where
  "set_epcis_events evs d =
     AList.map_entry ''dpp:traceability''
       (\<lambda>t. case t of JObj inner \<Rightarrow> JObj (dict_setitem ''epcis:events'' (JList evs) inner)
                    | other \<Rightarrow> other) d"

text \<open>
  The document that \<^verbatim>\<open>create_complete_dpp\<close> assembles before it touches IPFS:
  the generated metadata, with the events stored when \<^verbatim>\<open>epcis_events\<close> is a non-empty
  list.
\<close>

definition assemble_json_ld :: "env \<Rightarrow> product \<Rightarrow> json list option \<Rightarrow> dict" where
  "assemble_json_ld e p epcis_events_arg =
     (let json_ld_data = generate_json_ld_metadata e p (uuid4 e) in
      case epcis_events_arg of
        None \<Rightarrow> json_ld_data
      | Some evs \<Rightarrow> if evs \<noteq> [] then set_epcis_events evs json_ld_data else json_ld_data)"

text \<open>
  The row that \<^verbatim>\<open>create_complete_dpp\<close> adds to the session: its URL and GS1 link, and
  the constructor call \<^verbatim>\<open>DigitalProductPassport(...)\<close>; the two time stamps are the
  column defaults.
\<close>

definition new_passport ::
  "env \<Rightarrow> product \<Rightarrow> string \<Rightarrow> json list option \<Rightarrow> string \<Rightarrow> string \<Rightarrow> passport"
where
  "new_passport e p pid epcis_events_arg cid bhash =
     \<lparr>id' = uuid4 e,
      product_id = pid,
      dpp_url = ''https://econetra.com/verify/'' @ uuid4 e,
      ipfs_cid = cid,
      blockchain_hash = bhash,
      gs1_digital_link = ''https://id.gs1.org/01/''
                           @ or_else (gtin p) (''ECONETRA'' @ prod_id p)
                           @ ''/10/LOT123?linkType=gs1:pip'',
      epcis_events = (case epcis_events_arg of None \<Rightarrow> [] | Some evs \<Rightarrow> evs),
      json_ld_data = assemble_json_ld e p epcis_events_arg,
      issued_at = utcnow e,
      updated_at = utcnow e\<rparr>"

record create_result =
  r_dpp_id :: string
  r_ipfs_cid :: string
  r_blockchain_hash :: string
  r_dpp_url :: string
  r_gs1_digital_link :: string
  r_json_ld_data :: dict
  r_blockchain_success :: bool
  r_transaction_info :: transaction_info

text \<open>
  \<^verbatim>\<open>create_complete_dpp(product_id, epcis_events)\<close>. The result is \<open>Inl\<close> with the error
  message of the tuple \<^verbatim>\<open>(False, None, error)\<close>, or \<open>Inr\<close> with \<^verbatim>\<open>result_data\<close>.
\<close>

definition create_complete_dpp ::
  "env \<Rightarrow> string \<Rightarrow> json list option \<Rightarrow> world \<Rightarrow> (string + create_result) \<times> world"
where
  "create_complete_dpp e pid epcis_events_arg w =
     (case products e pid of
        None \<Rightarrow> (Inl ''Product not found'', w)
      | Some p \<Rightarrow>
          (case find (\<lambda>d. product_id d = pid) (passports w) of
             Some existing_dpp \<Rightarrow> (Inl ''DPP already exists for this product'', w)
           | None \<Rightarrow>
               (let dpp_id = uuid4 e;
                    json_ld = assemble_json_ld e p epcis_events_arg
                in case upload_dpp_metadata e json_ld w of
                     (Inl ipfs_error, w1) \<Rightarrow> (Inl (''IPFS upload failed: '' @ ipfs_error), w1)
                   | (Inr cid, w1) \<Rightarrow>
                       (let dhash = generate_data_hash (keccak e) json_ld;
                            (registered, w2) =
                               register_dpp_on_blockchain e cid dhash pid
                                 (''supplier:'' @ supplier_id p) w1;
                            blockchain_success = (case registered of Inl x \<Rightarrow> False | Inr x \<Rightarrow> True);
                            bhash = (case registered of
                                       Inl blockchain_error \<Rightarrow> ''0x'' @ dhash
                                     | Inr tx_info \<Rightarrow> transaction_hash tx_info);
                            tx = (case registered of
                                    Inl blockchain_error \<Rightarrow> Fallback bhash
                                  | Inr tx_info \<Rightarrow> tx_info);
                            dpp = new_passport e p pid epcis_events_arg cid bhash
                        in case db_add_commit (passports w2) dpp of
                             Inl ex \<Rightarrow> (Inl (''Error creating DPP: '' @ ex), w2)
                           | Inr rows \<Rightarrow>
                               (Inr \<lparr>r_dpp_id = dpp_id, r_ipfs_cid = cid,
                                     r_blockchain_hash = bhash, r_dpp_url = dpp_url dpp,
                                     r_gs1_digital_link = gs1_digital_link dpp,
                                     r_json_ld_data = json_ld,
                                     r_blockchain_success = blockchain_success,
                                     r_transaction_info = tx\<rparr>,
                                snd (pin_content e cid (w2\<lparr>passports := rows\<rparr>)))))))"

record verification_result =
  v_dpp_id :: string
  database_check :: bool
  ipfs_check :: bool
  blockchain_check :: bool
  data_integrity :: bool
  overall_valid :: bool

text \<open>
  \<^verbatim>\<open>verify_dpp_integrity(dpp_id)\<close>. It only reads; the result is \<open>Inl\<close> with the error
  message or \<open>Inr\<close> with the dictionary of flags \<^verbatim>\<open>verification_result\<close>.
\<close>

definition verify_dpp_integrity :: "env \<Rightarrow> string \<Rightarrow> world \<Rightarrow> string + verification_result" where
  "verify_dpp_integrity e dpp_id w =
     (case find (\<lambda>d. id' d = dpp_id) (passports w) of
        None \<Rightarrow> Inl ''DPP not found''
      | Some dpp \<Rightarrow>
          (let r0 = \<lparr>v_dpp_id = dpp_id, database_check = True, ipfs_check = False,
                     blockchain_check = False, data_integrity = False, overall_valid = False\<rparr>;
               r1 = (case retrieve_dpp_metadata e (ipfs_cid dpp) of
                       Inl ipfs_error \<Rightarrow> r0
                     | Inr ipfs_data \<Rightarrow>
                         (let r = r0\<lparr>ipfs_check := True\<rparr> in
                          case verify_content_integrity e (ipfs_cid dpp) (json_ld_data dpp) of
                            Inl integrity_error \<Rightarrow> r
                          | Inr valid \<Rightarrow> if valid then r\<lparr>data_integrity := True\<rparr> else r));
               r2 = (case verify_dpp_by_cid e (ipfs_cid dpp) of
                       Inl blockchain_error \<Rightarrow> r1
                     | Inr blockchain_data \<Rightarrow>
                         if is_valid blockchain_data then r1\<lparr>blockchain_check := True\<rparr> else r1)
           in Inr (r2\<lparr>overall_valid :=
                       database_check r2 \<and> ipfs_check r2 \<and> data_integrity r2
                       \<and> blockchain_check r2\<rparr>)))"

record update_result =
  u_dpp_id :: string
  new_ipfs_cid :: string
  new_data_hash :: string
  u_updated_at :: string

text \<open>The document \<^verbatim>\<open>updated_json_ld\<close> of \<^verbatim>\<open>update_dpp_metadata\<close>.\<close>

definition updated_json_ld :: "env \<Rightarrow> dict \<Rightarrow> dict \<Rightarrow> dict" where
  "updated_json_ld e stored updated_data =
     dict_setitem ''dpp:updatedAt'' (JStr (utcnow e)) (dict_merge stored updated_data)"

text \<open>\<^verbatim>\<open>update_dpp_metadata(dpp_id, updated_data)\<close>.\<close>

definition update_dpp_metadata ::
  "env \<Rightarrow> string \<Rightarrow> dict \<Rightarrow> world \<Rightarrow> (string + update_result) \<times> world"
where
  "update_dpp_metadata e dpp_id updated_data w =
     (case find (\<lambda>d. id' d = dpp_id) (passports w) of
        None \<Rightarrow> (Inl ''DPP not found'', w)
      | Some dpp \<Rightarrow>
          (let new_doc = updated_json_ld e (json_ld_data dpp) updated_data
           in case upload_dpp_metadata e new_doc w of
                (Inl ipfs_error, w1) \<Rightarrow> (Inl (''IPFS upload failed: '' @ ipfs_error), w1)
              | (Inr new_cid, w1) \<Rightarrow>
                  (let new_hash = generate_data_hash (keccak e) new_doc;
                       dpp' = dpp\<lparr>ipfs_cid := new_cid, json_ld_data := new_doc,
                                  updated_at := utcnow e\<rparr>
                   in case db_update_commit (passports w1) dpp' of
                        Inl ex \<Rightarrow> (Inl (''Error updating DPP metadata: '' @ ex), w1)
                      | Inr rows \<Rightarrow>
                          (Inr \<lparr>u_dpp_id = dpp_id, new_ipfs_cid = new_cid,
                                new_data_hash = new_hash, u_updated_at = utcnow e\<rparr>,
                           snd (pin_content e new_cid (w1\<lparr>passports := rows\<rparr>))))))"

section \<open>The notions of the specification\<close>

text \<open>
  ``Equal as finite maps'': the same key-value pairs at every nesting level, whatever
  the insertion order. Unlike \<open>py_eq\<close> it does not identify \<^verbatim>\<open>True\<close> with \<^verbatim>\<open>1\<close>.
\<close>

fun same_content :: "json \<Rightarrow> json \<Rightarrow> bool" where
  "same_content (JList xs) (JList ys) = list_all2 same_content xs ys"
| "same_content (JObj xs) (JObj ys) =
     (length xs = length ys \<and>
      list_all (\<lambda>(k, v). case map_of ys k of None \<Rightarrow> False | Some w \<Rightarrow> same_content v w) xs)"
| "same_content a b = (a = b)"

text \<open>
  ``Content-equivalent'': equal field by field after the two volatile fields
  \<^verbatim>\<open>ipfs_upload_timestamp\<close> and \<^verbatim>\<open>ipfs_version\<close> are excluded.
\<close>

definition content_equivalent :: "dict \<Rightarrow> dict \<Rightarrow> bool" where
  "content_equivalent d1 d2 = same_content (JObj (pop_volatile d1)) (JObj (pop_volatile d2))"

text \<open>
  The specification's integrity predicate, in its words: content retrieval succeeded
  and the hash of the retrieved content-equivalent form equals the stored data hash.
\<close>

definition spec_integrity_ok :: "(string \<Rightarrow> 256 word) \<Rightarrow> string + json \<Rightarrow> string \<Rightarrow> bool" where
  "spec_integrity_ok h retrieved stored_hash =
     (case retrieved of
        Inl error \<Rightarrow> False
      | Inr content \<Rightarrow>
          (case content of
             JObj d \<Rightarrow> generate_data_hash h (pop_volatile d) = stored_hash
           | _ \<Rightarrow> False))"

text \<open>At most one passport row for each product.\<close>

definition one_per_product :: "world \<Rightarrow> bool" where
  "one_per_product w = distinct (map product_id (passports w))"

section \<open>Sample data\<close>

text \<open>
  The document of the specification's scenario, the same document with its keys
  inserted in another order, and the copy that the IPFS node holds after upload.
\<close>

definition shirt :: dict where
  "shirt = [(''name'', JStr ''Shirt''),
            (''material'', JObj [(''cotton'', JInt 80), (''polyester'', JInt 20)])]"

definition shirt_reordered :: dict where
  "shirt_reordered = [(''material'', JObj [(''polyester'', JInt 20), (''cotton'', JInt 80)]),
                      (''name'', JStr ''Shirt'')]"

definition shirt_stamped :: dict where
  "shirt_stamped = [(''name'', JStr ''Shirt''),
            (''material'', JObj [(''cotton'', JInt 80), (''polyester'', JInt 20)]),
            (''ipfs_upload_timestamp'', JStr ''2024-05-01T10:00:00''),
            (''ipfs_version'', JStr ''1.0'')]"

definition demo_product :: product where
  "demo_product =
     \<lparr>prod_id = ''P1'', supplier_id = ''S1'', product_name = ''Shirt'', description = None,
      material_composition = JObj [(''cotton'', JInt 80), (''polyester'', JInt 20)],
      production_location = None, production_date = Some ''2024-04-30'', gtin = None\<rparr>"

text \<open>
  An environment in which every remote call succeeds. Its digest function is a
  stand-in; the theorems below hold for every digest function.
\<close>

definition demo_env :: env where
  "demo_env =
     \<lparr>products = (\<lambda>pid. if pid = ''P1'' then Some demo_product else None),
      utcnow = ''2024-05-01T10:00:00'',
      uuid4 = ''3f2b8c1e-9d47-4a6b-8c21-5e0f7a1b2c3d'',
      ipfs_client = True,
      ipfs_add_json = (\<lambda>d. Inr ''QmNewShirt''),
      ipfs_get_json = (\<lambda>cid. if cid = ''QmShirt'' then Inr (JObj shirt_stamped)
                              else Inl ''not found''),
      ipfs_pin_add = (\<lambda>cid. Inr ()),
      ipfs_pin_rm = (\<lambda>cid. Inr ()),
      keccak = (\<lambda>s. 0),
      contract_address = Some ''0x5FbDB2315678afecb367f032d93F642f64180aa3'',
      contract = True,
      account = True,
      is_connected = True,
      send_registerDPP = (\<lambda>cid dhash pid info. Inr (Receipt ''0xabc'' 7 21000 (Some 1) 1)),
      call_verifyByCid = (\<lambda>cid. Inr (cid = ''QmShirt'', 1, 0))\<rparr>"

definition empty_world :: world where
  "empty_world =
     \<lparr>passports = [], ipfs_added = [], ipfs_pinned = [], ipfs_unpinned = [], ledger_calls = []\<rparr>"

definition demo_passport :: passport where
  "demo_passport =
     \<lparr>id' = ''D1'', product_id = ''P1'', dpp_url = ''https://econetra.com/verify/D1'',
      ipfs_cid = ''QmShirt'', blockchain_hash = ''0xabc'',
      gs1_digital_link = ''https://id.gs1.org/01/ECONETRAP1/10/LOT123?linkType=gs1:pip'',
      epcis_events = [], json_ld_data = shirt_reordered,
      issued_at = ''2024-05-01T10:00:00'', updated_at = ''2024-05-01T10:00:00''\<rparr>"

definition demo_world :: world where
  "demo_world = empty_world\<lparr>passports := [demo_passport]\<rparr>"

text \<open>A patch for republication.\<close>

definition shirt_patch :: dict where
  "shirt_patch = [(''name'', JStr ''Shirt v2'')]"

text \<open>
  An environment whose IPFS node returns another document for the sample passport, and
  five verifications of the sample passport in which some check fails.
\<close>

definition tampered_env :: env where
  "tampered_env = demo_env\<lparr>ipfs_get_json := (\<lambda>cid. Inr (JObj [(''name'', JStr ''Coat'')]))\<rparr>"

definition non_valid_verifications :: "(string + verification_result) list" where
  "non_valid_verifications =
     [verify_dpp_integrity (demo_env\<lparr>ipfs_client := False, is_connected := False\<rparr>) ''D1'' demo_world,
      verify_dpp_integrity (demo_env\<lparr>ipfs_client := False\<rparr>) ''D1'' demo_world,
      verify_dpp_integrity (tampered_env\<lparr>is_connected := False\<rparr>) ''D1'' demo_world,
      verify_dpp_integrity tampered_env ''D1'' demo_world,
      verify_dpp_integrity (demo_env\<lparr>is_connected := False\<rparr>) ''D1'' demo_world]"

text \<open>
  A stored document and a retrieved one that Python finds equal although they are
  written differently, with the environment and the world that hold them.
\<close>

definition shirt_flagged :: dict where
  "shirt_flagged = [(''name'', JStr ''Shirt''), (''recycled'', JInt 1)]"

definition shirt_flagged_retrieved :: dict where
  "shirt_flagged_retrieved =
     [(''name'', JStr ''Shirt''), (''recycled'', JBool True),
      (''ipfs_upload_timestamp'', JStr ''2024-05-01T10:00:00''),
      (''ipfs_version'', JStr ''1.0'')]"

definition flagged_env :: env where
  "flagged_env = demo_env\<lparr>ipfs_get_json := (\<lambda>cid. Inr (JObj shirt_flagged_retrieved))\<rparr>"

definition flagged_world :: world where
  "flagged_world = empty_world\<lparr>passports := [demo_passport\<lparr>json_ld_data := shirt_flagged\<rparr>]\<rparr>"

section \<open>Lemmas\<close>

subsection \<open>The rendering of a digest\<close>

lemma length_hex_digits: "length (hex_digits w) = 64"
  by (simp add: hex_digits_def)




lemma last_hex_of_digest: "last (hex_of_digest w) = hex_digit (unat w)"
  by (simp add: hex_of_digest_def hex_digits_def last_map last_rev)

lemma hex_of_digest_separates: "hex_of_digest 0 \<noteq> hex_of_digest 1"
proof
  assume "hex_of_digest 0 = hex_of_digest 1"
  then have "last (hex_of_digest 0) = last (hex_of_digest 1)" by simp
  then show False by (simp add: last_hex_of_digest hex_digit_def)
qed

subsection \<open>Dictionaries\<close>

lemma wf_dict_pop: "wf_json (JObj d) \<Longrightarrow> wf_json (JObj (dict_pop k d))"
proof -
  assume wf: "wf_json (JObj d)"
  then have "distinct (map fst (AList.delete k d))"
    by (simp add: distinct_delete)
  moreover have "set (AList.delete k d) \<subseteq> set d"
    by (auto simp: AList.delete_eq)
  then have "list_all (\<lambda>(k, v). wf_json v) (AList.delete k d)"
    using wf by (auto simp: list_all_iff)
  ultimately show ?thesis by (simp add: dict_pop_def)
qed

lemma wf_pop_volatile: "wf_json (JObj d) \<Longrightarrow> wf_json (JObj (pop_volatile d))"
  unfolding pop_volatile_def by (intro wf_dict_pop)

lemma map_of_upload_metadata:
  "map_of (upload_metadata e d) =
     (map_of d)(''ipfs_upload_timestamp'' \<mapsto> JStr (utcnow e), ''ipfs_version'' \<mapsto> JStr ''1.0'')"
  by (simp add: upload_metadata_def dict_setitem_def update_conv')

lemma keys_upload_metadata:
  "fst ` set (upload_metadata e d) = fst ` set d \<union> {''ipfs_upload_timestamp'', ''ipfs_version''}"
  by (auto simp: upload_metadata_def dict_setitem_def dom_update)


subsection \<open>Sorting the items of a dictionary\<close>

lemma sort_key_fst_keys:
  assumes dx: "distinct (map fst xs)" and dy: "distinct (map fst ys)"
    and s: "fst ` set xs = fst ` set ys"
  shows "map fst (sort_key fst xs) = map fst (sort_key fst ys)"
proof -
  have "sorted (map fst (sort_key fst xs))" "sorted (map fst (sort_key fst ys))"
    by (rule sorted_sort_key)+
  moreover have "distinct (map fst (sort_key fst xs))" "distinct (map fst (sort_key fst ys))"
    using dx dy by (simp_all add: distinct_map)
  moreover have "set (map fst (sort_key fst xs)) = set (map fst (sort_key fst ys))"
    using s by simp
  ultimately show ?thesis
    by (rule_tac sorted_distinct_set_unique)
qed

lemma same_keys:
  assumes dx: "distinct (map fst xs)" and dy: "distinct (map fst ys)"
    and len: "length xs = length ys"
    and sub: "\<And>k v. (k, v) \<in> set xs \<Longrightarrow> \<exists>w. map_of ys k = Some w"
  shows "fst ` set xs = fst ` set ys"
proof -
  have "fst ` set xs \<subseteq> fst ` set ys"
  proof
    fix k assume "k \<in> fst ` set xs"
    then obtain v where "(k, v) \<in> set xs" by auto
    then obtain w where "map_of ys k = Some w" using sub by blast
    then have "(k, w) \<in> set ys" by (rule map_of_SomeD)
    then show "k \<in> fst ` set ys" by force
  qed
  moreover have "card (fst ` set xs) = card (fst ` set ys)"
    using dx dy len by (metis distinct_card length_map set_map)
  ultimately show ?thesis
    by (simp add: card_subset_eq)
qed

lemma sorted_members_eq:
  assumes dx: "distinct (map fst xs)" and dy: "distinct (map fst ys)"
    and len: "length xs = length ys"
    and rel: "\<And>k v. (k, v) \<in> set xs \<Longrightarrow> \<exists>w. map_of ys k = Some w \<and> f k v = f k w"
  shows "map (\<lambda>(k, v). f k v) (sort_key fst xs) = map (\<lambda>(k, v). f k v) (sort_key fst ys)"
proof (rule nth_equalityI)
  show "length (map (\<lambda>(k, v). f k v) (sort_key fst xs))
      = length (map (\<lambda>(k, v). f k v) (sort_key fst ys))"
    using len by simp
next
  fix i assume "i < length (map (\<lambda>(k, v). f k v) (sort_key fst xs))"
  then have i: "i < length xs" by simp
  have keys: "map fst (sort_key fst xs) = map fst (sort_key fst ys)"
    using dx dy same_keys[OF dx dy len] rel by (intro sort_key_fst_keys) blast+
  obtain k v where kv: "sort_key fst xs ! i = (k, v)" by (cases "sort_key fst xs ! i")
  obtain k' w where kw: "sort_key fst ys ! i = (k', w)" by (cases "sort_key fst ys ! i")
  have "map fst (sort_key fst xs) ! i = map fst (sort_key fst ys) ! i" using keys by simp
  then have kk: "k' = k" using kv kw i len by simp
  have "(k, v) \<in> set (sort_key fst xs)" using kv i by (metis length_sort nth_mem)
  then have inx: "(k, v) \<in> set xs" by simp
  have "(k, w) \<in> set (sort_key fst ys)" using kw kk i len by (metis length_sort nth_mem)
  then have "(k, w) \<in> set ys" by simp
  then have "map_of ys k = Some w" using dy by simp
  with rel[OF inx] have "f k v = f k w" by auto
  then show "map (\<lambda>(k, v). f k v) (sort_key fst xs) ! i
           = map (\<lambda>(k, v). f k v) (sort_key fst ys) ! i"
    using kv kw kk i len by simp
qed

lemma same_content_dumps:
  "same_content a b \<Longrightarrow> wf_json a \<Longrightarrow> wf_json b \<Longrightarrow> json_dumps a = json_dumps b"
proof (induction a arbitrary: b)
  case (JList xs)
  then obtain ys where b: "b = JList ys" by (cases b) auto
  have "list_all2 same_content xs ys" using JList.prems b by simp
  moreover have "list_all wf_json xs" "list_all wf_json ys" using JList.prems b by simp_all
  ultimately have "map json_dumps xs = map json_dumps ys"
    using JList.IH
  proof (induction xs ys rule: list_all2_induct)
    case Nil
    then show ?case by simp
  next
    case (Cons x xs y ys)
    then show ?case by simp
  qed
  then show ?case using b by simp
next
  case (JObj xs)
  then obtain ys where b: "b = JObj ys" by (cases b) auto
  have dx: "distinct (map fst xs)" and dy: "distinct (map fst ys)"
    and len: "length xs = length ys"
    using JObj.prems b by simp_all
  have wx: "\<And>k v. (k, v) \<in> set xs \<Longrightarrow> wf_json v"
    using JObj.prems(2) by (auto simp: list_all_iff)
  have wy: "\<And>k v. (k, v) \<in> set ys \<Longrightarrow> wf_json v"
    using JObj.prems(3) b by (auto simp: list_all_iff)
  have rel: "\<exists>w. map_of ys k = Some w \<and>
        encode_basestring_ascii k @ '':'' @ json_dumps v
          = encode_basestring_ascii k @ '':'' @ json_dumps w"
    if kv: "(k, v) \<in> set xs" for k v
  proof -
    from JObj.prems(1) b kv obtain w where w: "map_of ys k = Some w" "same_content v w"
      by (auto simp: list_all_iff split: option.splits)
    have "(k, w) \<in> set ys" using w(1) by (rule map_of_SomeD)
    then have "wf_json w" by (rule wy)
    moreover have "wf_json v" using kv by (rule wx)
    ultimately have "json_dumps v = json_dumps w"
      using JObj.IH[OF kv, of v w] w(2) by simp
    with w(1) show ?thesis by simp
  qed
  have "map (\<lambda>(k, v). encode_basestring_ascii k @ '':'' @ json_dumps v) (sort_key fst xs)
      = map (\<lambda>(k, v). encode_basestring_ascii k @ '':'' @ json_dumps v) (sort_key fst ys)"
    by (rule sorted_members_eq[OF dx dy len]) (rule rel)
  then show ?case using b by simp
qed (cases b; simp)+

section \<open>The claims about the canonical hash\<close>

text \<open>
  C5. The serialisation does not depend on the order in which keys were inserted: two
  documents with the same key-value pairs at every nesting level have the same data
  hash, whatever the digest function is.
\<close>

theorem hash_independent_of_key_order:
  "same_content (JObj d1) (JObj d2) \<Longrightarrow> wf_json (JObj d1) \<Longrightarrow> wf_json (JObj d2)
   \<Longrightarrow> generate_data_hash h d1 = generate_data_hash h d2"
  unfolding generate_data_hash_def by (simp only: same_content_dumps)

theorem hash_independent_of_key_order_witness:
  "same_content (JObj shirt) (JObj shirt_reordered) \<and> wf_json (JObj shirt)
   \<and> wf_json (JObj shirt_reordered) \<and> shirt \<noteq> shirt_reordered
   \<and> (\<forall>h. generate_data_hash h shirt = generate_data_hash h shirt_reordered)"
proof -
  have a: "same_content (JObj shirt) (JObj shirt_reordered)"
    by (simp add: shirt_def shirt_reordered_def)
  have b: "wf_json (JObj shirt)" by (simp add: shirt_def)
  have c: "wf_json (JObj shirt_reordered)" by (simp add: shirt_reordered_def)
  have d: "shirt \<noteq> shirt_reordered" by (simp add: shirt_def shirt_reordered_def)
  show ?thesis
    using a b c d hash_independent_of_key_order[OF a b c] by blast
qed

text \<open>
  C1, as stated, fails: \<open>generate_data_hash\<close> serialises the document it is given and
  removes nothing. The documents \<^verbatim>\<open>shirt\<close> and \<^verbatim>\<open>shirt_stamped\<close> differ only in the
  two volatile fields, so they are content-equivalent, but their serialisations differ
  (the second one carries the two stamps), and the
  hashes are the digests of two different texts.
\<close>

theorem hash_of_stamped_document_counterexample:
  "content_equivalent shirt shirt_stamped
   \<and> json_dumps (JObj shirt) \<noteq> json_dumps (JObj shirt_stamped)
   \<and> \<not> (\<forall>h. generate_data_hash h shirt = generate_data_hash h shirt_stamped)"
proof -
  have a: "content_equivalent shirt shirt_stamped"
    by (simp add: content_equivalent_def pop_volatile_def dict_pop_def AList.delete_eq
        shirt_def shirt_stamped_def)
  have b: "json_dumps (JObj shirt) \<noteq> json_dumps (JObj shirt_stamped)"
    by (simp add: shirt_def shirt_stamped_def encode_basestring_ascii_def)
  define h :: "string \<Rightarrow> 256 word" where "h = (\<lambda>s. if s = json_dumps (JObj shirt) then 0 else 1)"
  have "generate_data_hash h shirt \<noteq> generate_data_hash h shirt_stamped"
    using b by (simp add: generate_data_hash_def h_def hex_of_digest_separates)
  then show ?thesis using a b by blast
qed

text \<open>
  C1, amended. For content-equivalent documents the data hashes of the documents
  without their two volatile fields agree. (\<open>create_complete_dpp\<close> hashes the document
  before \<open>upload_dpp_metadata\<close> stamps it.)
\<close>

theorem hash_of_content_equivalent:
  "content_equivalent d1 d2 \<Longrightarrow> wf_json (JObj d1) \<Longrightarrow> wf_json (JObj d2)
   \<Longrightarrow> generate_data_hash h (pop_volatile d1) = generate_data_hash h (pop_volatile d2)"
  unfolding generate_data_hash_def content_equivalent_def
  by (simp only: same_content_dumps wf_pop_volatile)

theorem hash_of_content_equivalent_witness:
  "content_equivalent shirt_reordered shirt_stamped \<and> wf_json (JObj shirt_reordered)
   \<and> wf_json (JObj shirt_stamped)
   \<and> (\<forall>h. generate_data_hash h (pop_volatile shirt_reordered)
          = generate_data_hash h (pop_volatile shirt_stamped))"
proof -
  have a: "content_equivalent shirt_reordered shirt_stamped"
    by (simp add: content_equivalent_def pop_volatile_def dict_pop_def AList.delete_eq
        shirt_reordered_def shirt_stamped_def)
  have b: "wf_json (JObj shirt_reordered)" by (simp add: shirt_reordered_def)
  have c: "wf_json (JObj shirt_stamped)" by (simp add: shirt_stamped_def)
  show ?thesis
    using a b c hash_of_content_equivalent[OF a b c] by blast
qed

text \<open>
  C10. When \<open>upload_dpp_metadata\<close> succeeds, the document handed to the IPFS node is
  the input document with the two fields \<^verbatim>\<open>ipfs_upload_timestamp\<close> and \<^verbatim>\<open>ipfs_version\<close>
  set (overwritten when the input had them); every other field is as in the input.
\<close>

theorem uploaded_document_is_stamped_input:
  "fst (upload_dpp_metadata e d w) = Inr cid \<Longrightarrow>
     ipfs_added (snd (upload_dpp_metadata e d w)) = ipfs_added w @ [(cid, upload_metadata e d)]
     \<and> map_of (upload_metadata e d)
         = (map_of d)(''ipfs_upload_timestamp'' \<mapsto> JStr (utcnow e),
                      ''ipfs_version'' \<mapsto> JStr ''1.0'')
     \<and> fst ` set (upload_metadata e d)
         = fst ` set d \<union> {''ipfs_upload_timestamp'', ''ipfs_version''}"
  by (auto simp: upload_dpp_metadata_def map_of_upload_metadata keys_upload_metadata
      split: if_splits sum.splits)

theorem uploaded_document_is_stamped_input_witness:
  "fst (upload_dpp_metadata demo_env shirt empty_world) = Inr ''QmNewShirt''
   \<and> ipfs_added (snd (upload_dpp_metadata demo_env shirt empty_world))
       = ipfs_added empty_world @ [(''QmNewShirt'', upload_metadata demo_env shirt)]
   \<and> map_of (upload_metadata demo_env shirt)
       = (map_of shirt)(''ipfs_upload_timestamp'' \<mapsto> JStr (utcnow demo_env),
                        ''ipfs_version'' \<mapsto> JStr ''1.0'')
   \<and> fst ` set (upload_metadata demo_env shirt)
       = fst ` set shirt \<union> {''ipfs_upload_timestamp'', ''ipfs_version''}
   \<and> upload_metadata demo_env shirt = shirt_stamped"
proof -
  have a: "fst (upload_dpp_metadata demo_env shirt empty_world) = Inr ''QmNewShirt''"
    by (simp add: upload_dpp_metadata_def demo_env_def)
  have b: "upload_metadata demo_env shirt = shirt_stamped"
    by (simp add: upload_metadata_def dict_setitem_def demo_env_def shirt_def shirt_stamped_def)
  show ?thesis
    using a b uploaded_document_is_stamped_input[OF a] by simp
qed

section \<open>The claims about creation\<close>

lemma upload_cases:
  "upload_dpp_metadata e d w = (Inl err, w') \<Longrightarrow> w' = w"
  "upload_dpp_metadata e d w = (Inr cid, w') \<Longrightarrow>
     w' = w\<lparr>ipfs_added := ipfs_added w @ [(cid, upload_metadata e d)]\<rparr>"
  by (auto simp: upload_dpp_metadata_def split: if_splits sum.splits)

lemma register_world:
  "snd (register_dpp_on_blockchain e cid h pid s w)
     = w\<lparr>ledger_calls := ledger_calls w @ [(cid, h, pid, s)]\<rparr>"
  by (simp add: register_dpp_on_blockchain_def Let_def split: sum.splits)

lemma pin_world:
  "passports (snd (pin_content e cid w)) = passports w"
  "ipfs_added (snd (pin_content e cid w)) = ipfs_added w"
  "ipfs_unpinned (snd (pin_content e cid w)) = ipfs_unpinned w"
  "ledger_calls (snd (pin_content e cid w)) = ledger_calls w"
  by (simp_all add: pin_content_def split: sum.splits)

text \<open>
  C6. When the upload to the content store fails, \<open>create_complete_dpp\<close> returns the
  error and leaves the world as it was: no passport row is written and
  \<open>register_dpp_on_blockchain\<close> is not called.
\<close>

theorem create_aborts_when_upload_fails:
  "products e pid = Some p \<Longrightarrow> find (\<lambda>d. product_id d = pid) (passports w) = None
   \<Longrightarrow> fst (upload_dpp_metadata e (assemble_json_ld e p evs) w) = Inl err
   \<Longrightarrow> create_complete_dpp e pid evs w = (Inl (''IPFS upload failed: '' @ err), w)"
proof -
  assume p: "products e pid = Some p"
    and n: "find (\<lambda>d. product_id d = pid) (passports w) = None"
    and u: "fst (upload_dpp_metadata e (assemble_json_ld e p evs) w) = Inl err"
  obtain w1 where u1: "upload_dpp_metadata e (assemble_json_ld e p evs) w = (Inl err, w1)"
    using u by (cases "upload_dpp_metadata e (assemble_json_ld e p evs) w") simp
  then have "w1 = w" by (rule upload_cases)
  with u1 p n show ?thesis
    by (simp add: create_complete_dpp_def)
qed

theorem create_aborts_when_upload_fails_witness:
  "products (demo_env\<lparr>ipfs_client := False\<rparr>) ''P1'' = Some demo_product
   \<and> find (\<lambda>d. product_id d = ''P1'') (passports empty_world) = None
   \<and> fst (upload_dpp_metadata (demo_env\<lparr>ipfs_client := False\<rparr>)
            (assemble_json_ld (demo_env\<lparr>ipfs_client := False\<rparr>) demo_product None) empty_world)
       = Inl ''IPFS client not initialized''
   \<and> create_complete_dpp (demo_env\<lparr>ipfs_client := False\<rparr>) ''P1'' None empty_world
       = (Inl ''IPFS upload failed: IPFS client not initialized'', empty_world)"
proof -
  have a: "products (demo_env\<lparr>ipfs_client := False\<rparr>) ''P1'' = Some demo_product"
    by (simp add: demo_env_def)
  have b: "find (\<lambda>d. product_id d = ''P1'') (passports empty_world) = None"
    by (simp add: empty_world_def)
  have c: "fst (upload_dpp_metadata (demo_env\<lparr>ipfs_client := False\<rparr>)
            (assemble_json_ld (demo_env\<lparr>ipfs_client := False\<rparr>) demo_product None) empty_world)
       = Inl ''IPFS client not initialized''"
    by (simp add: upload_dpp_metadata_def)
  show ?thesis
    using a b c create_aborts_when_upload_fails[OF a b c] by simp
qed

lemma upload_fst_snd:
  "fst (upload_dpp_metadata e d w) = Inr cid \<Longrightarrow>
     snd (upload_dpp_metadata e d w) = w\<lparr>ipfs_added := ipfs_added w @ [(cid, upload_metadata e d)]\<rparr>"
  "fst (upload_dpp_metadata e d w) = Inl err \<Longrightarrow> snd (upload_dpp_metadata e d w) = w"
  by (auto simp: upload_dpp_metadata_def split: if_splits sum.splits)

lemma create_after_upload:
  assumes p: "products e pid = Some p"
    and n: "find (\<lambda>d. product_id d = pid) (passports w) = None"
    and u: "fst (upload_dpp_metadata e (assemble_json_ld e p evs) w) = Inr cid"
  shows "create_complete_dpp e pid evs w =
     (let json_ld = assemble_json_ld e p evs;
          w1 = snd (upload_dpp_metadata e json_ld w);
          dhash = generate_data_hash (keccak e) json_ld;
          reg = register_dpp_on_blockchain e cid dhash pid (''supplier:'' @ supplier_id p) w1;
          bhash = (case fst reg of Inl x \<Rightarrow> ''0x'' @ dhash | Inr tx \<Rightarrow> transaction_hash tx);
          dpp = new_passport e p pid evs cid bhash
      in if unique_violation (passports w) dpp
         then (Inl ''Error creating DPP: IntegrityError'', snd reg)
         else (Inr \<lparr>r_dpp_id = uuid4 e, r_ipfs_cid = cid, r_blockchain_hash = bhash,
                    r_dpp_url = dpp_url dpp, r_gs1_digital_link = gs1_digital_link dpp,
                    r_json_ld_data = json_ld,
                    r_blockchain_success = (case fst reg of Inl x \<Rightarrow> False | Inr x \<Rightarrow> True),
                    r_transaction_info = (case fst reg of Inl x \<Rightarrow> Fallback bhash | Inr tx \<Rightarrow> tx)\<rparr>,
               snd (pin_content e cid ((snd reg)\<lparr>passports := passports w @ [dpp]\<rparr>))))"
proof -
  obtain w1 where u1: "upload_dpp_metadata e (assemble_json_ld e p evs) w = (Inr cid, w1)"
    using u by (cases "upload_dpp_metadata e (assemble_json_ld e p evs) w") simp
  have w1: "passports w1 = passports w"
    using upload_fst_snd(1)[OF u] u1 by simp
  obtain reg w2 where r: "register_dpp_on_blockchain e cid
      (generate_data_hash (keccak e) (assemble_json_ld e p evs)) pid (''supplier:'' @ supplier_id p) w1
      = (reg, w2)"
    by (cases "register_dpp_on_blockchain e cid
      (generate_data_hash (keccak e) (assemble_json_ld e p evs)) pid (''supplier:'' @ supplier_id p) w1")
  have w2: "passports w2 = passports w"
    using register_world[of e cid "generate_data_hash (keccak e) (assemble_json_ld e p evs)" pid
        "''supplier:'' @ supplier_id p" w1] r w1 by simp
  show ?thesis
    using p n u1 r w2
    by (simp add: create_complete_dpp_def Let_def db_add_commit_def split: sum.splits)
qed








text \<open>
  The value \<^verbatim>\<open>f"0x{data_hash}"\<close> that \<open>create_complete_dpp\<close> stores when registration
  failed: with the prefix that the rendering already has, the prefix stands twice, and
  the 68 characters are more than the 66 of the column \<^verbatim>\<open>blockchain_hash\<close>.
\<close>

lemma fallback_hash_is_prefixed_twice:
  "''0x'' @ generate_data_hash h d = ''0x0x'' @ hex_digits (h (json_dumps (JObj d)))
   \<and> length (''0x'' @ generate_data_hash h d) = 68"
  by (simp add: generate_data_hash_def hex_of_digest_def length_hex_digits)


lemma demo_create:
  "fst (create_complete_dpp demo_env ''P1'' None empty_world) =
      Inr \<lparr>r_dpp_id = ''3f2b8c1e-9d47-4a6b-8c21-5e0f7a1b2c3d'', r_ipfs_cid = ''QmNewShirt'',
           r_blockchain_hash = ''0xabc'',
           r_dpp_url = ''https://econetra.com/verify/3f2b8c1e-9d47-4a6b-8c21-5e0f7a1b2c3d'',
           r_gs1_digital_link = ''https://id.gs1.org/01/ECONETRAP1/10/LOT123?linkType=gs1:pip'',
           r_json_ld_data = assemble_json_ld demo_env demo_product None,
           r_blockchain_success = True,
           r_transaction_info = Receipt ''0xabc'' 7 21000 (Some 1) 1\<rparr>"
proof -
  let ?h = "generate_data_hash (keccak demo_env) (assemble_json_ld demo_env demo_product None)"
  have a: "products demo_env ''P1'' = Some demo_product"
    by (simp add: demo_env_def)
  have b: "find (\<lambda>d. product_id d = ''P1'') (passports empty_world) = None"
    by (simp add: empty_world_def)
  have c: "fst (upload_dpp_metadata demo_env (assemble_json_ld demo_env demo_product None)
      empty_world) = Inr ''QmNewShirt''"
    by (simp add: upload_dpp_metadata_def demo_env_def)
  have r: "fst (register_dpp_on_blockchain demo_env ''QmNewShirt'' ?h ''P1''
        (''supplier:'' @ supplier_id demo_product)
        (snd (upload_dpp_metadata demo_env (assemble_json_ld demo_env demo_product None) empty_world)))
      = Inr (Receipt ''0xabc'' 7 21000 (Some 1) 1)"
    by (simp add: register_dpp_on_blockchain_def demo_env_def Let_def)
  show ?thesis
    unfolding create_after_upload[OF a b c]
    apply (simp only: Let_def r)
    apply (simp add: unique_violation_def empty_world_def new_passport_def)
    apply (simp add: demo_env_def demo_product_def or_else_def)
    done
qed




section \<open>The claims about the passport table and republication\<close>

lemma create_success:
  assumes c: "fst (create_complete_dpp e pid evs w) = Inr r"
  shows "\<exists>p row. products e pid = Some p \<and> find (\<lambda>d. product_id d = pid) (passports w) = None
           \<and> product_id row = pid
           \<and> passports (snd (create_complete_dpp e pid evs w)) = passports w @ [row]"
proof -
  from c obtain p where p: "products e pid = Some p"
    by (cases "products e pid") (auto simp: create_complete_dpp_def)
  from c p have n: "find (\<lambda>d. product_id d = pid) (passports w) = None"
    by (cases "find (\<lambda>d. product_id d = pid) (passports w)") (auto simp: create_complete_dpp_def)
  from c p n obtain cid where u: "fst (upload_dpp_metadata e (assemble_json_ld e p evs) w) = Inr cid"
    by (cases "upload_dpp_metadata e (assemble_json_ld e p evs) w";
        cases "fst (upload_dpp_metadata e (assemble_json_ld e p evs) w)")
       (auto simp: create_complete_dpp_def)
  have "\<exists>row. product_id row = pid
           \<and> passports (snd (create_complete_dpp e pid evs w)) = passports w @ [row]"
    using c unfolding create_after_upload[OF p n u]
    by (auto simp: Let_def pin_world new_passport_def split: if_splits)
  then show ?thesis using p n by blast
qed

lemma create_failure:
  assumes c: "fst (create_complete_dpp e pid evs w) = Inl m"
  shows "passports (snd (create_complete_dpp e pid evs w)) = passports w"
proof (cases "products e pid")
  case None
  then show ?thesis by (simp add: create_complete_dpp_def)
next
  case (Some p)
  show ?thesis
  proof (cases "find (\<lambda>d. product_id d = pid) (passports w)")
    case (Some d)
    then show ?thesis using \<open>products e pid = Some p\<close> by (simp add: create_complete_dpp_def)
  next
    case None
    show ?thesis
    proof (cases "fst (upload_dpp_metadata e (assemble_json_ld e p evs) w)")
      case (Inl err)
      then obtain w1 where "upload_dpp_metadata e (assemble_json_ld e p evs) w = (Inl err, w1)"
        by (cases "upload_dpp_metadata e (assemble_json_ld e p evs) w") simp
      moreover from this have "w1 = w" by (rule upload_cases)
      ultimately show ?thesis
        using None \<open>products e pid = Some p\<close> by (simp add: create_complete_dpp_def)
    next
      case (Inr cid)
      have "passports (snd (upload_dpp_metadata e (assemble_json_ld e p evs) w)) = passports w"
        using upload_fst_snd(1)[OF Inr] by simp
      then show ?thesis
        using c unfolding create_after_upload[OF \<open>products e pid = Some p\<close> None Inr]
        by (auto simp: Let_def register_world split: if_splits)
    qed
  qed
qed

lemma one_per_product_create:
  assumes inv: "one_per_product w"
  shows "one_per_product (snd (create_complete_dpp e pid evs w))"
proof (cases "fst (create_complete_dpp e pid evs w)")
  case (Inl m)
  then show ?thesis using inv create_failure[OF Inl] by (simp add: one_per_product_def)
next
  case (Inr r)
  from create_success[OF Inr] obtain p row where
    n: "find (\<lambda>d. product_id d = pid) (passports w) = None" and
    row: "product_id row = pid" and
    ps: "passports (snd (create_complete_dpp e pid evs w)) = passports w @ [row]"
    by blast
  from n have "pid \<notin> set (map product_id (passports w))"
    by (auto simp: find_None_iff)
  then show ?thesis using inv row ps by (simp add: one_per_product_def)
qed

lemma db_replace_map:
  "find (\<lambda>d. id' d = i) rows = Some d \<Longrightarrow> id' n = i \<Longrightarrow> f n = f d
   \<Longrightarrow> map f (db_replace n rows) = map f rows"
  by (induction rows) (auto split: if_splits)

lemma update_success:
  assumes f: "find (\<lambda>d. id' d = dpp_id) (passports w) = Some dpp"
    and u: "fst (update_dpp_metadata e dpp_id patch w) = Inr r"
  shows "fst (upload_dpp_metadata e (updated_json_ld e (json_ld_data dpp) patch) w)
           = Inr (new_ipfs_cid r)
       \<and> r = \<lparr>u_dpp_id = dpp_id, new_ipfs_cid = new_ipfs_cid r,
                new_data_hash = generate_data_hash (keccak e)
                                  (updated_json_ld e (json_ld_data dpp) patch),
                u_updated_at = utcnow e\<rparr>
       \<and> snd (update_dpp_metadata e dpp_id patch w)
           = snd (pin_content e (new_ipfs_cid r)
               ((snd (upload_dpp_metadata e (updated_json_ld e (json_ld_data dpp) patch) w))
                  \<lparr>passports := db_replace
                      (dpp\<lparr>ipfs_cid := new_ipfs_cid r,
                           json_ld_data := updated_json_ld e (json_ld_data dpp) patch,
                           updated_at := utcnow e\<rparr>) (passports w)\<rparr>))"
proof -
  let ?doc = "updated_json_ld e (json_ld_data dpp) patch"
  obtain x w1 where up: "upload_dpp_metadata e ?doc w = (x, w1)"
    by (cases "upload_dpp_metadata e ?doc w")
  from u f up obtain cid where x: "x = Inr cid"
    by (cases x) (auto simp: update_dpp_metadata_def Let_def)
  have w1: "w1 = w\<lparr>ipfs_added := ipfs_added w @ [(cid, upload_metadata e ?doc)]\<rparr>"
    using up x by (auto dest: upload_cases(2))
  show ?thesis
    using u f up x w1
    by (auto simp: update_dpp_metadata_def Let_def db_update_commit_def split: if_splits)
qed

lemma update_failure:
  assumes u: "fst (update_dpp_metadata e dpp_id patch w) = Inl m"
  shows "passports (snd (update_dpp_metadata e dpp_id patch w)) = passports w"
proof (cases "find (\<lambda>d. id' d = dpp_id) (passports w)")
  case None
  then show ?thesis by (simp add: update_dpp_metadata_def)
next
  case (Some dpp)
  let ?doc = "updated_json_ld e (json_ld_data dpp) patch"
  obtain x w1 where up: "upload_dpp_metadata e ?doc w = (x, w1)"
    by (cases "upload_dpp_metadata e ?doc w")
  show ?thesis
  proof (cases x)
    case (Inl err)
    then have "w1 = w" using up by (auto dest: upload_cases(1))
    then show ?thesis using Some up Inl by (simp add: update_dpp_metadata_def Let_def)
  next
    case (Inr cid)
    then have "passports w1 = passports w" using up by (auto dest: upload_cases(2))
    then show ?thesis
      using u Some up Inr
      by (auto simp: update_dpp_metadata_def Let_def db_update_commit_def split: if_splits)
  qed
qed


lemma update_columns:
  "map id' (passports (snd (update_dpp_metadata e dpp_id patch w))) = map id' (passports w)"
  "map product_id (passports (snd (update_dpp_metadata e dpp_id patch w)))
     = map product_id (passports w)"
  "map blockchain_hash (passports (snd (update_dpp_metadata e dpp_id patch w)))
     = map blockchain_hash (passports w)"
proof -
  have "map id' (passports (snd (update_dpp_metadata e dpp_id patch w))) = map id' (passports w)
      \<and> map product_id (passports (snd (update_dpp_metadata e dpp_id patch w)))
          = map product_id (passports w)
      \<and> map blockchain_hash (passports (snd (update_dpp_metadata e dpp_id patch w)))
          = map blockchain_hash (passports w)"
  proof (cases "fst (update_dpp_metadata e dpp_id patch w)")
    case (Inl m)
    then show ?thesis using update_failure[OF Inl] by simp
  next
    case (Inr r)
    then obtain dpp where f: "find (\<lambda>d. id' d = dpp_id) (passports w) = Some dpp"
      by (cases "find (\<lambda>d. id' d = dpp_id) (passports w)") (auto simp: update_dpp_metadata_def)
    have i: "id' dpp = dpp_id" using f by (auto simp: find_Some_iff)
    show ?thesis
      using update_success[OF f Inr] i
      by (simp add: pin_world db_replace_map[OF f])
  qed
  then show
    "map id' (passports (snd (update_dpp_metadata e dpp_id patch w))) = map id' (passports w)"
    "map product_id (passports (snd (update_dpp_metadata e dpp_id patch w)))
       = map product_id (passports w)"
    "map blockchain_hash (passports (snd (update_dpp_metadata e dpp_id patch w)))
       = map blockchain_hash (passports w)"
    by simp_all
qed





text \<open>
  C7. \<open>create_complete_dpp\<close> fails when the product does not exist and when a
  passport row for the product exists, leaving the world as it was; so a successful
  call found the product and no row for it, and has added one. Creation and
  republication keep the table at one row at most for each product.
\<close>

theorem one_passport_per_product:
  "(products e pid = None \<longrightarrow>
      create_complete_dpp e pid evs w = (Inl ''Product not found'', w))
   \<and> (pid \<in> set (map product_id (passports w)) \<longrightarrow>
        (\<exists>m. create_complete_dpp e pid evs w = (Inl m, w))
        \<and> (products e pid \<noteq> None \<longrightarrow>
              create_complete_dpp e pid evs w = (Inl ''DPP already exists for this product'', w)))
   \<and> (\<forall>r. fst (create_complete_dpp e pid evs w) = Inr r \<longrightarrow>
        products e pid \<noteq> None
        \<and> pid \<notin> set (map product_id (passports w))
        \<and> map product_id (passports (snd (create_complete_dpp e pid evs w)))
            = map product_id (passports w) @ [pid])
   \<and> (one_per_product w \<longrightarrow>
        one_per_product (snd (create_complete_dpp e pid evs w))
        \<and> one_per_product (snd (update_dpp_metadata e dpp_id patch w)))"
proof -
  have a: "create_complete_dpp e pid evs w = (Inl ''Product not found'', w)"
    if "products e pid = None"
    using that by (simp add: create_complete_dpp_def)
  have b: "create_complete_dpp e pid evs w = (Inl ''DPP already exists for this product'', w)"
    if "pid \<in> set (map product_id (passports w))" "products e pid \<noteq> None"
  proof -
    from that(1) obtain d where "find (\<lambda>d. product_id d = pid) (passports w) = Some d"
      by (cases "find (\<lambda>d. product_id d = pid) (passports w)") (auto simp: find_None_iff)
    then show ?thesis using that(2) by (auto simp: create_complete_dpp_def)
  qed
  have c: "products e pid \<noteq> None \<and> pid \<notin> set (map product_id (passports w))
      \<and> map product_id (passports (snd (create_complete_dpp e pid evs w)))
          = map product_id (passports w) @ [pid]"
    if "fst (create_complete_dpp e pid evs w) = Inr r" for r
    using create_success[OF that] by (auto simp: find_None_iff)
  have d: "one_per_product (snd (update_dpp_metadata e dpp_id patch w))" if "one_per_product w"
    using that by (simp add: one_per_product_def update_columns)
  have e: "one_per_product (snd (create_complete_dpp e pid evs w))" if "one_per_product w"
    using that by (rule one_per_product_create)
  have f: "\<exists>m. create_complete_dpp e pid evs w = (Inl m, w)"
    if "pid \<in> set (map product_id (passports w))"
    using a b[OF that] by (cases "products e pid") auto
  show ?thesis
    by (intro conjI impI allI a b c d e f)
qed

theorem one_passport_per_product_witness:
  "one_per_product demo_world
   \<and> ''P1'' \<in> set (map product_id (passports demo_world))
   \<and> create_complete_dpp demo_env ''P1'' None demo_world
       = (Inl ''DPP already exists for this product'', demo_world)
   \<and> one_per_product (snd (update_dpp_metadata demo_env ''D1'' shirt_patch demo_world))
   \<and> products demo_env ''P2'' = None
   \<and> create_complete_dpp demo_env ''P2'' None demo_world = (Inl ''Product not found'', demo_world)
   \<and> one_per_product empty_world
   \<and> map product_id (passports (snd (create_complete_dpp demo_env ''P1'' None empty_world)))
       = [''P1'']
   \<and> one_per_product (snd (create_complete_dpp demo_env ''P1'' None empty_world))"
proof -
  have inv: "one_per_product demo_world"
    by (simp add: one_per_product_def demo_world_def empty_world_def)
  have ex: "''P1'' \<in> set (map product_id (passports demo_world))"
    by (simp add: demo_world_def empty_world_def demo_passport_def)
  have p1: "products demo_env ''P1'' \<noteq> None" by (simp add: demo_env_def)
  have p2: "products demo_env ''P2'' = None" by (simp add: demo_env_def)
  have inv0: "one_per_product empty_world"
    by (simp add: one_per_product_def empty_world_def)
  have e0: "map product_id (passports empty_world) = []"
    by (simp add: empty_world_def)
  note t1 = one_passport_per_product[of demo_env "''P1''" None demo_world "''D1''" shirt_patch]
  note t2 = one_passport_per_product[of demo_env "''P2''" None demo_world "''D1''" shirt_patch]
  note t3 = one_passport_per_product[of demo_env "''P1''" None empty_world "''D1''" shirt_patch]
  have a: "create_complete_dpp demo_env ''P1'' None demo_world
       = (Inl ''DPP already exists for this product'', demo_world)"
    using t1 ex p1 by blast
  have b: "one_per_product (snd (update_dpp_metadata demo_env ''D1'' shirt_patch demo_world))"
    using t1 inv by blast
  have c: "create_complete_dpp demo_env ''P2'' None demo_world = (Inl ''Product not found'', demo_world)"
    using t2 p2 by blast
  have "map product_id (passports (snd (create_complete_dpp demo_env ''P1'' None empty_world)))
       = map product_id (passports empty_world) @ [''P1'']"
    using t3 demo_create by blast
  then have d: "map product_id (passports (snd (create_complete_dpp demo_env ''P1'' None empty_world)))
       = [''P1'']"
    using e0 by simp
  have e: "one_per_product (snd (create_complete_dpp demo_env ''P1'' None empty_world))"
    using t3 inv0 by blast
  show ?thesis
    by (intro conjI inv ex a b p2 c inv0 d e)
qed







section \<open>The claims about verification\<close>

lemma verify_found:
  assumes f: "find (\<lambda>d. id' d = dpp_id) (passports w) = Some dpp"
  shows "verify_dpp_integrity e dpp_id w =
     Inr \<lparr>v_dpp_id = dpp_id, database_check = True,
          ipfs_check = (\<exists>m. retrieve_dpp_metadata e (ipfs_cid dpp) = Inr m),
          blockchain_check = (\<exists>b. verify_dpp_by_cid e (ipfs_cid dpp) = Inr b \<and> is_valid b),
          data_integrity = (verify_content_integrity e (ipfs_cid dpp) (json_ld_data dpp) = Inr True),
          overall_valid = ((\<exists>m. retrieve_dpp_metadata e (ipfs_cid dpp) = Inr m)
             \<and> verify_content_integrity e (ipfs_cid dpp) (json_ld_data dpp) = Inr True
             \<and> (\<exists>b. verify_dpp_by_cid e (ipfs_cid dpp) = Inr b \<and> is_valid b))\<rparr>"
proof -
  have i: "verify_content_integrity e (ipfs_cid dpp) (json_ld_data dpp) \<noteq> Inr True"
    if "retrieve_dpp_metadata e (ipfs_cid dpp) = Inl x" for x
    using that by (simp add: verify_content_integrity_def)
  show ?thesis
    using f i
    by (cases "retrieve_dpp_metadata e (ipfs_cid dpp)";
        cases "verify_content_integrity e (ipfs_cid dpp) (json_ld_data dpp)";
        cases "verify_dpp_by_cid e (ipfs_cid dpp)")
       (auto simp: verify_dpp_integrity_def Let_def)
qed


lemma demo_found: "find (\<lambda>d. id' d = ''D1'') (passports demo_world) = Some demo_passport"
  by (simp add: demo_world_def empty_world_def demo_passport_def)

lemma demo_integrity:
  "py_eq (JObj (pop_volatile shirt_stamped)) (JObj (pop_volatile shirt_reordered))"
  by (simp add: pop_volatile_def dict_pop_def AList.delete_eq shirt_stamped_def shirt_reordered_def)

lemma tampered_integrity:
  "\<not> py_eq (JObj (pop_volatile [(''name'', JStr ''Coat'')])) (JObj (pop_volatile shirt_reordered))"
  by (simp add: pop_volatile_def dict_pop_def AList.delete_eq shirt_reordered_def)

text \<open>
  C3, as stated, fails: \<open>verify_dpp_integrity\<close> has no verdict. It returns the flags of
  the three checks beside \<^verbatim>\<open>overall_valid\<close>, and the results that are not valid are
  more than three: in the sample world the five verifications below all have
  \<^verbatim>\<open>overall_valid\<close> false, and they are five different results.
\<close>

theorem verify_returns_flags_counterexample:
  "distinct non_valid_verifications
   \<and> length non_valid_verifications = 5
   \<and> list_all (\<lambda>x. case x of Inl error \<Rightarrow> False | Inr r \<Rightarrow> \<not> overall_valid r)
        non_valid_verifications"
proof -
  have c: "ipfs_cid demo_passport = ''QmShirt''" "json_ld_data demo_passport = shirt_reordered"
    by (simp_all add: demo_passport_def)
  have v: "non_valid_verifications =
     [Inr \<lparr>v_dpp_id = ''D1'', database_check = True, ipfs_check = False,
           blockchain_check = False, data_integrity = False, overall_valid = False\<rparr>,
      Inr \<lparr>v_dpp_id = ''D1'', database_check = True, ipfs_check = False,
           blockchain_check = True, data_integrity = False, overall_valid = False\<rparr>,
      Inr \<lparr>v_dpp_id = ''D1'', database_check = True, ipfs_check = True,
           blockchain_check = False, data_integrity = False, overall_valid = False\<rparr>,
      Inr \<lparr>v_dpp_id = ''D1'', database_check = True, ipfs_check = True,
           blockchain_check = True, data_integrity = False, overall_valid = False\<rparr>,
      Inr \<lparr>v_dpp_id = ''D1'', database_check = True, ipfs_check = True,
           blockchain_check = False, data_integrity = True, overall_valid = False\<rparr>]"
    unfolding non_valid_verifications_def verify_found[OF demo_found] c
    by (simp add: retrieve_dpp_metadata_def verify_content_integrity_def verify_dpp_by_cid_def
        tampered_env_def demo_env_def demo_integrity tampered_integrity del: py_eq.simps)
  show ?thesis
    unfolding v by simp
qed

text \<open>
  C3, amended. For every passport row, \<open>verify_dpp_integrity\<close> returns the flags of
  the content-store check, the integrity check and the ledger check, and
  \<^verbatim>\<open>overall_valid\<close> is true if and only if the three checks succeed. The integrity
  flag is set only when the content-store flag is. No verdict is derived from the
  flags.
\<close>

theorem overall_valid_iff_all_checks:
  assumes f: "find (\<lambda>d. id' d = dpp_id) (passports w) = Some dpp"
  shows "\<exists>r. verify_dpp_integrity e dpp_id w = Inr r
     \<and> v_dpp_id r = dpp_id
     \<and> database_check r
     \<and> ipfs_check r = (\<exists>m. retrieve_dpp_metadata e (ipfs_cid dpp) = Inr m)
     \<and> data_integrity r
         = (verify_content_integrity e (ipfs_cid dpp) (json_ld_data dpp) = Inr True)
     \<and> blockchain_check r = (\<exists>b. verify_dpp_by_cid e (ipfs_cid dpp) = Inr b \<and> is_valid b)
     \<and> overall_valid r = (ipfs_check r \<and> data_integrity r \<and> blockchain_check r)
     \<and> (data_integrity r \<longrightarrow> ipfs_check r)"
proof -
  have "verify_content_integrity e (ipfs_cid dpp) (json_ld_data dpp) = Inr True
      \<longrightarrow> (\<exists>m. retrieve_dpp_metadata e (ipfs_cid dpp) = Inr m)"
    by (cases "retrieve_dpp_metadata e (ipfs_cid dpp)") (simp_all add: verify_content_integrity_def)
  then show ?thesis
    unfolding verify_found[OF f] by simp
qed

theorem overall_valid_iff_all_checks_witness:
  "find (\<lambda>d. id' d = ''D1'') (passports demo_world) = Some demo_passport
   \<and> verify_dpp_integrity demo_env ''D1'' demo_world
       = Inr \<lparr>v_dpp_id = ''D1'', database_check = True, ipfs_check = True,
              blockchain_check = True, data_integrity = True, overall_valid = True\<rparr>
   \<and> verify_content_integrity demo_env (ipfs_cid demo_passport) (json_ld_data demo_passport)
       = Inr True"
proof -
  have c: "ipfs_cid demo_passport = ''QmShirt''" "json_ld_data demo_passport = shirt_reordered"
    by (simp_all add: demo_passport_def)
  have i: "verify_content_integrity demo_env (ipfs_cid demo_passport) (json_ld_data demo_passport)
       = Inr True"
    unfolding c
    by (simp add: verify_content_integrity_def retrieve_dpp_metadata_def demo_env_def demo_integrity
        del: py_eq.simps)
  have r: "\<exists>m. retrieve_dpp_metadata demo_env (ipfs_cid demo_passport) = Inr m"
    unfolding c by (simp add: retrieve_dpp_metadata_def demo_env_def)
  have b: "\<exists>b. verify_dpp_by_cid demo_env (ipfs_cid demo_passport) = Inr b \<and> is_valid b"
    unfolding c by (simp add: verify_dpp_by_cid_def demo_env_def)
  from overall_valid_iff_all_checks[OF demo_found, of demo_env]
  obtain x where x: "verify_dpp_integrity demo_env ''D1'' demo_world = Inr x"
    "v_dpp_id x = ''D1''" "database_check x" "ipfs_check x" "data_integrity x"
    "blockchain_check x" "overall_valid x"
    using i r b by auto
  then have "x = \<lparr>v_dpp_id = ''D1'', database_check = True, ipfs_check = True,
              blockchain_check = True, data_integrity = True, overall_valid = True\<rparr>"
    by (cases x) simp
  then show ?thesis
    using demo_found x(1) i by blast
qed

lemma same_content_py_eq: "same_content a b \<Longrightarrow> py_eq a b"
proof (induction a arbitrary: b)
  case JNull
  then show ?case by (cases b) simp_all
next
  case (JBool x)
  then show ?case by (cases b) simp_all
next
  case (JInt x)
  then show ?case by (cases b) simp_all
next
  case (JStr x)
  then show ?case by (cases b) simp_all
next
  case (JList xs)
  then obtain ys where b: "b = JList ys" by (cases b) auto
  have "list_all2 same_content xs ys" using JList.prems b by simp
  then have "list_all2 py_eq xs ys"
  proof (rule list.rel_mono_strong)
    fix x y assume "x \<in> set xs" "same_content x y"
    then show "py_eq x y" by (rule JList.IH)
  qed
  then show ?case using b by simp
next
  case (JObj xs)
  then obtain ys where b: "b = JObj ys" by (cases b) auto
  have len: "length xs = length ys" using JObj.prems b by simp
  have all: "list_all (\<lambda>(k, v). case map_of ys k of None \<Rightarrow> False
                                | Some w \<Rightarrow> same_content v w) xs"
    using JObj.prems b by simp
  have "list_all (\<lambda>(k, v). case map_of ys k of None \<Rightarrow> False | Some w \<Rightarrow> py_eq v w) xs"
    unfolding list_all_iff
  proof (clarify)
    fix k v assume kv: "(k, v) \<in> set xs"
    with all obtain w where w: "map_of ys k = Some w" "same_content v w"
      by (auto simp: list_all_iff split: option.splits)
    have "py_eq v w" using JObj.IH[OF kv, of v w] w(2) by simp
    then show "case map_of ys k of None \<Rightarrow> False | Some w \<Rightarrow> py_eq v w"
      using w(1) by simp
  qed
  then show ?case using b len by simp
qed

lemma pop_volatile_no_volatile:
  "''ipfs_upload_timestamp'' \<notin> fst ` set d \<Longrightarrow> ''ipfs_version'' \<notin> fst ` set d
   \<Longrightarrow> pop_volatile d = d"
  by (simp add: pop_volatile_def dict_pop_def)

lemma same_content_keys:
  assumes s: "same_content (JObj xs) (JObj ys)"
    and dx: "distinct (map fst xs)" and dy: "distinct (map fst ys)"
  shows "fst ` set xs = fst ` set ys"
proof (rule same_keys[OF dx dy])
  show "length xs = length ys" using s by simp
next
  fix k v assume "(k, v) \<in> set xs"
  then show "\<exists>w. map_of ys k = Some w"
    using s by (auto simp: list_all_iff split: option.splits)
qed

lemma keys_pop_volatile:
  "''ipfs_upload_timestamp'' \<notin> fst ` set (pop_volatile d)"
  "''ipfs_version'' \<notin> fst ` set (pop_volatile d)"
  by (auto simp: pop_volatile_def dict_pop_def AList.delete_eq)



text \<open>
  C2, as stated, fails: \<open>verify_dpp_integrity\<close> computes no hash, and its comparison of
  the two dictionaries with \<^verbatim>\<open>==\<close> does not decide what the hash comparison decides.
  The stored document \<^verbatim>\<open>shirt_flagged\<close> has \<^verbatim>\<open>recycled\<close> bound to \<^verbatim>\<open>1\<close>, the retrieved one
  to \<^verbatim>\<open>True\<close>. Python finds them equal, so the integrity flag is set; their
  serialisations differ (\<^verbatim>\<open>1\<close> against \<^verbatim>\<open>true\<close>), so the hash of the retrieved form is
  the digest of another text than the data hash of the stored document.
\<close>

theorem structural_check_is_not_hash_check_counterexample:
  "verify_content_integrity flagged_env ''QmShirt'' shirt_flagged = Inr True
   \<and> (case verify_dpp_integrity flagged_env ''D1'' flagged_world of
         Inl error \<Rightarrow> False | Inr r \<Rightarrow> data_integrity r)
   \<and> json_dumps (JObj (pop_volatile shirt_flagged_retrieved)) \<noteq> json_dumps (JObj shirt_flagged)
   \<and> \<not> (\<forall>h. spec_integrity_ok h (retrieve_dpp_metadata flagged_env ''QmShirt'')
                (generate_data_hash h shirt_flagged))"
proof -
  have r: "retrieve_dpp_metadata flagged_env ''QmShirt'' = Inr (JObj shirt_flagged_retrieved)"
    by (simp add: retrieve_dpp_metadata_def flagged_env_def demo_env_def)
  have e: "py_eq (JObj (pop_volatile shirt_flagged_retrieved)) (JObj (pop_volatile shirt_flagged))"
    by (simp add: pop_volatile_def dict_pop_def AList.delete_eq shirt_flagged_retrieved_def
        shirt_flagged_def)
  have a: "verify_content_integrity flagged_env ''QmShirt'' shirt_flagged = Inr True"
    using e by (simp add: verify_content_integrity_def r del: py_eq.simps)
  have f: "find (\<lambda>d. id' d = ''D1'') (passports flagged_world)
      = Some (demo_passport\<lparr>json_ld_data := shirt_flagged\<rparr>)"
    by (simp add: flagged_world_def empty_world_def demo_passport_def)
  have b: "(case verify_dpp_integrity flagged_env ''D1'' flagged_world of
         Inl error \<Rightarrow> False | Inr r \<Rightarrow> data_integrity r)"
    unfolding verify_found[OF f] using a by (simp add: demo_passport_def)
  have c: "json_dumps (JObj (pop_volatile shirt_flagged_retrieved)) \<noteq> json_dumps (JObj shirt_flagged)"
    by (simp add: pop_volatile_def dict_pop_def AList.delete_eq shirt_flagged_retrieved_def
        shirt_flagged_def encode_basestring_ascii_def str_int_def str_nat.simps hex_digit_def)
  define h :: "string \<Rightarrow> 256 word"
    where "h = (\<lambda>s. if s = json_dumps (JObj shirt_flagged) then 0 else 1)"
  have "\<not> spec_integrity_ok h (retrieve_dpp_metadata flagged_env ''QmShirt'')
                (generate_data_hash h shirt_flagged)"
    using c hex_of_digest_separates
    by (simp add: spec_integrity_ok_def r generate_data_hash_def h_def)
  then have d: "\<not> (\<forall>h. spec_integrity_ok h (retrieve_dpp_metadata flagged_env ''QmShirt'')
                (generate_data_hash h shirt_flagged))"
    by blast
  show ?thesis
    by (intro conjI a b c d)
qed

text \<open>
  C2, amended. In \<open>verify_dpp_integrity\<close> the integrity flag holds if and only if
  content retrieval succeeded, the retrieved content is a dictionary, and it equals the
  stored document under Python's \<^verbatim>\<open>==\<close> once the two volatile fields are removed from
  both; no hash is computed. Whenever the retrieved document without its volatile
  fields has the same content as the stored document, the flag holds and the hash of
  that retrieved form equals the data hash of the stored document.
\<close>

theorem integrity_is_structural_comparison:
  assumes f: "find (\<lambda>d. id' d = dpp_id) (passports w) = Some dpp"
    and v: "verify_dpp_integrity e dpp_id w = Inr r"
  shows "data_integrity r
       = (\<exists>m. retrieve_dpp_metadata e (ipfs_cid dpp) = Inr (JObj m)
            \<and> py_eq (JObj (pop_volatile m)) (JObj (pop_volatile (json_ld_data dpp))))
     \<and> (\<forall>m. retrieve_dpp_metadata e (ipfs_cid dpp) = Inr (JObj m)
            \<and> wf_json (JObj m) \<and> wf_json (JObj (json_ld_data dpp))
            \<and> same_content (JObj (pop_volatile m)) (JObj (json_ld_data dpp))
          \<longrightarrow> data_integrity r
              \<and> spec_integrity_ok h (retrieve_dpp_metadata e (ipfs_cid dpp))
                    (generate_data_hash h (json_ld_data dpp)))"
proof -
  have d: "data_integrity r
      = (verify_content_integrity e (ipfs_cid dpp) (json_ld_data dpp) = Inr True)"
    using v unfolding verify_found[OF f] by auto
  have a: "(verify_content_integrity e (ipfs_cid dpp) (json_ld_data dpp) = Inr True)
       = (\<exists>m. retrieve_dpp_metadata e (ipfs_cid dpp) = Inr (JObj m)
            \<and> py_eq (JObj (pop_volatile m)) (JObj (pop_volatile (json_ld_data dpp))))"
    by (auto simp: verify_content_integrity_def simp del: py_eq.simps
        split: sum.splits json.splits)
  have b: "data_integrity r
              \<and> spec_integrity_ok h (retrieve_dpp_metadata e (ipfs_cid dpp))
                    (generate_data_hash h (json_ld_data dpp))"
    if m: "retrieve_dpp_metadata e (ipfs_cid dpp) = Inr (JObj m)"
      and wm: "wf_json (JObj m)" and ws: "wf_json (JObj (json_ld_data dpp))"
      and sc: "same_content (JObj (pop_volatile m)) (JObj (json_ld_data dpp))"
    for m
  proof -
    have wp: "wf_json (JObj (pop_volatile m))" using wm by (rule wf_pop_volatile)
    have "fst ` set (pop_volatile m) = fst ` set (json_ld_data dpp)"
      using sc wp ws by (intro same_content_keys) simp_all
    then have "pop_volatile (json_ld_data dpp) = json_ld_data dpp"
      using keys_pop_volatile[of m] by (intro pop_volatile_no_volatile) simp_all
    then have "py_eq (JObj (pop_volatile m)) (JObj (pop_volatile (json_ld_data dpp)))"
      using same_content_py_eq[OF sc] by simp
    then have "data_integrity r" using d a m by blast
    moreover have "json_dumps (JObj (pop_volatile m)) = json_dumps (JObj (json_ld_data dpp))"
      using sc wp ws by (rule same_content_dumps)
    then have "spec_integrity_ok h (retrieve_dpp_metadata e (ipfs_cid dpp))
                    (generate_data_hash h (json_ld_data dpp))"
      by (simp add: spec_integrity_ok_def m generate_data_hash_def)
    ultimately show ?thesis by simp
  qed
  have first: "data_integrity r
       = (\<exists>m. retrieve_dpp_metadata e (ipfs_cid dpp) = Inr (JObj m)
            \<and> py_eq (JObj (pop_volatile m)) (JObj (pop_volatile (json_ld_data dpp))))"
    unfolding d by (rule a)
  show ?thesis
  proof (intro conjI allI impI)
    show "data_integrity r
       = (\<exists>m. retrieve_dpp_metadata e (ipfs_cid dpp) = Inr (JObj m)
            \<and> py_eq (JObj (pop_volatile m)) (JObj (pop_volatile (json_ld_data dpp))))"
      by (rule first)
  next
    fix m
    assume "retrieve_dpp_metadata e (ipfs_cid dpp) = Inr (JObj m)
            \<and> wf_json (JObj m) \<and> wf_json (JObj (json_ld_data dpp))
            \<and> same_content (JObj (pop_volatile m)) (JObj (json_ld_data dpp))"
    then have "data_integrity r
              \<and> spec_integrity_ok h (retrieve_dpp_metadata e (ipfs_cid dpp))
                    (generate_data_hash h (json_ld_data dpp))"
      by (intro b) (elim conjE, assumption)+
    then show "data_integrity r"
      and "spec_integrity_ok h (retrieve_dpp_metadata e (ipfs_cid dpp))
                    (generate_data_hash h (json_ld_data dpp))"
      by (rule conjunct1, rule conjunct2)
  qed
qed

theorem integrity_is_structural_comparison_witness:
  "find (\<lambda>d. id' d = ''D1'') (passports demo_world) = Some demo_passport
   \<and> verify_dpp_integrity demo_env ''D1'' demo_world
       = Inr \<lparr>v_dpp_id = ''D1'', database_check = True, ipfs_check = True,
              blockchain_check = True, data_integrity = True, overall_valid = True\<rparr>
   \<and> retrieve_dpp_metadata demo_env (ipfs_cid demo_passport) = Inr (JObj shirt_stamped)
   \<and> wf_json (JObj shirt_stamped) \<and> wf_json (JObj (json_ld_data demo_passport))
   \<and> same_content (JObj (pop_volatile shirt_stamped)) (JObj (json_ld_data demo_passport))
   \<and> (\<forall>h. spec_integrity_ok h (retrieve_dpp_metadata demo_env (ipfs_cid demo_passport))
             (generate_data_hash h (json_ld_data demo_passport)))"
proof -
  have c: "ipfs_cid demo_passport = ''QmShirt''" "json_ld_data demo_passport = shirt_reordered"
    by (simp_all add: demo_passport_def)
  have r: "retrieve_dpp_metadata demo_env (ipfs_cid demo_passport) = Inr (JObj shirt_stamped)"
    unfolding c by (simp add: retrieve_dpp_metadata_def demo_env_def)
  have i: "verify_content_integrity demo_env (ipfs_cid demo_passport) (json_ld_data demo_passport)
       = Inr True"
    unfolding c
    by (simp add: verify_content_integrity_def retrieve_dpp_metadata_def demo_env_def demo_integrity
        del: py_eq.simps)
  have b: "\<exists>b. verify_dpp_by_cid demo_env (ipfs_cid demo_passport) = Inr b \<and> is_valid b"
    unfolding c by (simp add: verify_dpp_by_cid_def demo_env_def)
  have v: "verify_dpp_integrity demo_env ''D1'' demo_world
       = Inr \<lparr>v_dpp_id = ''D1'', database_check = True, ipfs_check = True,
              blockchain_check = True, data_integrity = True, overall_valid = True\<rparr>"
    unfolding verify_found[OF demo_found] using r i b by simp
  have w1: "wf_json (JObj shirt_stamped)" by (simp add: shirt_stamped_def)
  have w2: "wf_json (JObj (json_ld_data demo_passport))"
    unfolding c by (simp add: shirt_reordered_def)
  have sc: "same_content (JObj (pop_volatile shirt_stamped)) (JObj (json_ld_data demo_passport))"
    unfolding c
    by (simp add: pop_volatile_def dict_pop_def AList.delete_eq shirt_stamped_def
        shirt_reordered_def)
  have prem: "retrieve_dpp_metadata demo_env (ipfs_cid demo_passport) = Inr (JObj shirt_stamped)
       \<and> wf_json (JObj shirt_stamped) \<and> wf_json (JObj (json_ld_data demo_passport))
       \<and> same_content (JObj (pop_volatile shirt_stamped)) (JObj (json_ld_data demo_passport))"
    by (intro conjI r w1 w2 sc)
  have "spec_integrity_ok h (retrieve_dpp_metadata demo_env (ipfs_cid demo_passport))
             (generate_data_hash h (json_ld_data demo_passport))" for h
    using integrity_is_structural_comparison[OF demo_found v, of h, THEN conjunct2,
        THEN spec, of shirt_stamped] prem
    by (elim impE) (assumption, elim conjE, assumption)
  then have all: "\<forall>h. spec_integrity_ok h (retrieve_dpp_metadata demo_env (ipfs_cid demo_passport))
             (generate_data_hash h (json_ld_data demo_passport))"
    by (rule allI)
  show ?thesis
    by (intro conjI demo_found v r w1 w2 sc all)
qed


end
